theory Spec2Isabelle
  imports Main "HOL-Library.Multiset"
begin

section \<open>JavaScript strings\<close>


definition is_upper :: "char \<Rightarrow> bool" where
  "is_upper c = (let n = (of_char c :: nat) in
     (65 \<le> n \<and> n \<le> 90) \<or> (192 \<le> n \<and> n \<le> 222 \<and> n \<noteq> 215))"

definition is_lower :: "char \<Rightarrow> bool" where
  "is_lower c = (let n = (of_char c :: nat) in
     (97 \<le> n \<and> n \<le> 122) \<or> (224 \<le> n \<and> n \<le> 254 \<and> n \<noteq> 247))"

definition lower_char :: "char \<Rightarrow> char" where
  "lower_char c = (if is_upper c then char_of (of_char c + (32::nat)) else c)"

text \<open>
  \<open>String.prototype.toUpperCase\<close> maps the sharp s (U+00DF) to the two letters SS. The
  upper-case forms of U+00B5 and U+00FF lie above U+00FF; these two code units are left
  unchanged here and are not part of the modelled domain of \<open>toUpperCase\<close>.
\<close>

definition upper_char :: "char \<Rightarrow> string" where
  "upper_char c = (if is_lower c then [char_of (of_char c - (32::nat))]
                   else if c = CHR 0xDF then ''SS'' else [c])"

definition toLowerCase :: "string \<Rightarrow> string" where
  "toLowerCase s = map lower_char s"

definition toUpperCase :: "string \<Rightarrow> string" where
  "toUpperCase s = concat (map upper_char s)"

text \<open>White space of the regular-expression class \<open>\s\<close> and of \<open>trim\<close>, within Latin-1.\<close>

definition is_space :: "char \<Rightarrow> bool" where
  "is_space c = (c \<in> set [CHR 0x20, CHR 0x09, CHR 0x0A, CHR 0x0B, CHR 0x0C, CHR 0x0D, CHR 0xA0])"

definition trim :: "string \<Rightarrow> string" where
  "trim s = rev (dropWhile is_space (rev (dropWhile is_space s)))"

fun startsWith :: "string \<Rightarrow> string \<Rightarrow> bool" where
  "startsWith s [] = True"
| "startsWith [] (p # ps) = False"
| "startsWith (c # cs) (p # ps) = (c = p \<and> startsWith cs ps)"

definition endsWith :: "string \<Rightarrow> string \<Rightarrow> bool" where
  "endsWith s p = startsWith (rev s) (rev p)"

text \<open>\<open>s.includes(p)\<close>: \<open>p\<close> occurs in \<open>s\<close> as a contiguous substring.\<close>

fun str_includes :: "string \<Rightarrow> string \<Rightarrow> bool" where
  "str_includes [] p = (p = [])"
| "str_includes (c # cs) p = (startsWith (c # cs) p \<or> str_includes cs p)"

text \<open>\<open>s.replace(p, r)\<close> with a string pattern: only the first occurrence is replaced.\<close>

fun replace_first :: "string \<Rightarrow> string \<Rightarrow> string \<Rightarrow> string" where
  "replace_first [] p r = (if p = [] then r else [])"
| "replace_first (c # cs) p r =
     (if startsWith (c # cs) p then r @ drop (length p) (c # cs)
      else c # replace_first cs p r)"

text \<open>\<open>parts.join(sep)\<close>.\<close>

fun join :: "string \<Rightarrow> string list \<Rightarrow> string" where
  "join sep [] = []"
| "join sep [x] = x"
| "join sep (x # y # ys) = x @ sep @ join sep (y # ys)"

text \<open>
  \<open>s.split(/\s+/)\<close>: the pieces between maximal runs of white space. A run at the start or
  at the end of the string leaves an empty first or last piece, and the empty string
  splits into one empty piece.
\<close>

fun split_ws :: "string \<Rightarrow> string list" where
  "split_ws [] = [[]]"
| "split_ws (c # cs) =
     (if is_space c then (if cs \<noteq> [] \<and> is_space (hd cs) then split_ws cs else [] # split_ws cs)
      else (case split_ws cs of [] \<Rightarrow> [[c]] | w # ws \<Rightarrow> (c # w) # ws))"

text \<open>
  \<open>s.normalize('NFD')\<close> followed by the removal of the combining marks U+0300 .. U+036F.
  Within Latin-1 the letters with a canonical decomposition are the accented vowels,
  N with tilde, C with cedilla and Y with acute accent or diaeresis; each decomposes into
  its base letter and one combining mark, and the mark is then removed.
\<close>

definition base_letter :: "char \<Rightarrow> char" where
  "base_letter c = (let n = (of_char c :: nat) in
     if 192 \<le> n \<and> n \<le> 197 then CHR ''A''
     else if n = 199 then CHR ''C''
     else if 200 \<le> n \<and> n \<le> 203 then CHR ''E''
     else if 204 \<le> n \<and> n \<le> 207 then CHR ''I''
     else if n = 209 then CHR ''N''
     else if 210 \<le> n \<and> n \<le> 214 then CHR ''O''
     else if 217 \<le> n \<and> n \<le> 220 then CHR ''U''
     else if n = 221 then CHR ''Y''
     else if 224 \<le> n \<and> n \<le> 229 then CHR ''a''
     else if n = 231 then CHR ''c''
     else if 232 \<le> n \<and> n \<le> 235 then CHR ''e''
     else if 236 \<le> n \<and> n \<le> 239 then CHR ''i''
     else if n = 241 then CHR ''n''
     else if 242 \<le> n \<and> n \<le> 246 then CHR ''o''
     else if 249 \<le> n \<and> n \<le> 252 then CHR ''u''
     else if n = 253 \<or> n = 255 then CHR ''y''
     else c)"

definition strip_accents :: "string \<Rightarrow> string" where
  "strip_accents s = map base_letter s"

section \<open>Name composer: title normalization\<close>

text \<open>The callback of \<open>map\<close> in \<open>normalizeTitle\<close>: acronyms are kept, other words capitalized.\<close>

definition capitalizeWord :: "string \<Rightarrow> string" where
  "capitalizeWord word =
     (if length word = 0 then []
      else if word = toUpperCase word \<and> length word \<le> 4 then word
      else toUpperCase [hd word] @ toLowerCase (tl word))"

text \<open>\<open>replace(/\.{2,}/g, '.')\<close>: every run of dots becomes one dot.\<close>

fun collapse_dots :: "string \<Rightarrow> string" where
  "collapse_dots [] = []"
| "collapse_dots [c] = [c]"
| "collapse_dots (c # d # cs) =
     (if c = CHR ''.'' \<and> d = CHR ''.'' then collapse_dots (d # cs)
      else c # collapse_dots (d # cs))"

text \<open>\<open>replace(/^\.|\.$/g, '')\<close>: one dot at the start and one dot at the end are removed.\<close>

definition strip_dots :: "string \<Rightarrow> string" where
  "strip_dots s =
     (let s1 = (case s of [] \<Rightarrow> [] | c # cs \<Rightarrow> if c = CHR ''.'' then cs else c # cs)
      in if s1 \<noteq> [] \<and> last s1 = CHR ''.'' then butlast s1 else s1)"

text \<open>
  \<open>normalizeTitle\<close> (the free function and \<open>Media.normalizeTitle\<close> have the same body).
\<close>

definition normalizeTitle :: "string \<Rightarrow> string" where
  "normalizeTitle t =
     (if t = [] then []
      else
        let normalized = strip_accents t;
            normalized = map (\<lambda>m. if m = CHR 0xE7 then CHR ''c''
                                    else if m = CHR 0xC7 then CHR ''C'' else m) normalized;
            normalized = map (\<lambda>c. if c = CHR 0x27 \<or> c = CHR 0x60 then CHR ''.'' else c) normalized;
            normalized = filter (\<lambda>c. c \<notin> set '',;}{[]:'') normalized;
            normalized = map (\<lambda>c. if c = CHR ''-'' then CHR ''.'' else c) normalized;
            normalized = join ''.'' (map capitalizeWord (split_ws normalized))
        in strip_dots (collapse_dots normalized))"

section \<open>Regular expressions\<close>

text \<open>
  The regular expressions of the source are kept as data and run by a backtracking
  matcher that returns the ways to match in the order in which JavaScript tries them:
  the left alternative first, the longest repetition first. A match state is the text
  already consumed (reversed), the text ahead and the capture groups closed so far.
  \<open>Star\<close> and \<open>Plus\<close> are bounded by the length of the subject string, which a repetition
  of a character class cannot exceed.
\<close>

datatype re =
    Eps
  | Cls "char list"
  | NCls "char list"
  | Seq re re
  | Alt re re
  | Rep nat nat re
  | Star re
  | Plus re
  | Bnd
  | Bol
  | Eol
  | Grp nat re

type_synonym mstate = "string \<times> string \<times> (nat \<times> string) list"

definition word_chars :: "char list" where
  "word_chars = ''abcdefghijklmnopqrstuvwxyzABCDEFGHIJKLMNOPQRSTUVWXYZ0123456789_''"

definition digit_chars :: "char list" where
  "digit_chars = ''0123456789''"

definition space_chars :: "char list" where
  "space_chars = [CHR 0x20, CHR 0x09, CHR 0x0A, CHR 0x0B, CHR 0x0C, CHR 0x0D, CHR 0xA0]"

definition at_boundary :: "string \<Rightarrow> string \<Rightarrow> bool" where
  "at_boundary pre suf =
     ((pre \<noteq> [] \<and> hd pre \<in> set word_chars) \<noteq> (suf \<noteq> [] \<and> hd suf \<in> set word_chars))"

fun re_weight :: "nat \<Rightarrow> re \<Rightarrow> nat" where
  "re_weight n (Seq a b) = Suc (re_weight n a + re_weight n b)"
| "re_weight n (Alt a b) = Suc (re_weight n a + re_weight n b)"
| "re_weight n (Rep lo hi r) = Suc hi * Suc (re_weight n r)"
| "re_weight n (Star r) = Suc (Suc n * Suc (re_weight n r))"
| "re_weight n (Plus r) = Suc (Suc n * Suc (re_weight n r))"
| "re_weight n (Grp k r) = Suc (re_weight n r)"
| "re_weight n r = 0"

function rmatch :: "nat \<Rightarrow> re \<Rightarrow> mstate \<Rightarrow> mstate list" where
  "rmatch n Eps st = [st]"
| "rmatch n (Cls cs) (pre, suf, caps) =
     (case suf of [] \<Rightarrow> [] | c # r \<Rightarrow> if c \<in> set cs then [(c # pre, r, caps)] else [])"
| "rmatch n (NCls cs) (pre, suf, caps) =
     (case suf of [] \<Rightarrow> [] | c # r \<Rightarrow> if c \<notin> set cs then [(c # pre, r, caps)] else [])"
| "rmatch n (Seq a b) st = concat (map (rmatch n b) (rmatch n a st))"
| "rmatch n (Alt a b) st = rmatch n a st @ rmatch n b st"
| "rmatch n (Rep lo 0 r) st = (if lo = 0 then [st] else [])"
| "rmatch n (Rep lo (Suc hi) r) st =
     concat (map (rmatch n (Rep (lo - 1) hi r)) (rmatch n r st)) @ (if lo = 0 then [st] else [])"
| "rmatch n (Star r) st = rmatch n (Rep 0 n r) st"
| "rmatch n (Plus r) st = rmatch n (Rep 1 n r) st"
| "rmatch n Bnd (pre, suf, caps) = (if at_boundary pre suf then [(pre, suf, caps)] else [])"
| "rmatch n Bol (pre, suf, caps) = (if pre = [] then [(pre, suf, caps)] else [])"
| "rmatch n Eol (pre, suf, caps) = (if suf = [] then [(pre, suf, caps)] else [])"
| "rmatch n (Grp k r) (pre, suf, caps) =
     map (\<lambda>(pre', suf', caps'). (pre', suf', (k, rev (take (length pre' - length pre) pre')) # caps'))
       (rmatch n r (pre, suf, caps))"
  by pat_completeness auto
termination
  by (relation "measure (\<lambda>(n, r, st). re_weight n r)") auto

text \<open>
  \<open>regex.exec(s)\<close> from index 0: the leftmost start at which the expression matches, with
  the index of the match, the matched text and the capture groups.
\<close>

record rx_match =
  index :: nat
  matched :: string
  groups :: "(nat \<times> string) list"

fun exec_from :: "nat \<Rightarrow> re \<Rightarrow> string \<Rightarrow> string \<Rightarrow> rx_match option" where
  "exec_from n r pre suf =
     (case rmatch n r (pre, suf, []) of
        (pre', suf', caps) # ms \<Rightarrow>
          Some \<lparr>index = length pre, matched = rev (take (length pre' - length pre) pre'), groups = caps\<rparr>
      | [] \<Rightarrow> (case suf of [] \<Rightarrow> None | c # cs \<Rightarrow> exec_from n r (c # pre) cs))"

definition exec :: "re \<Rightarrow> string \<Rightarrow> rx_match option" where
  "exec r s = exec_from (length s) r [] s"

definition test :: "re \<Rightarrow> string \<Rightarrow> bool" where
  "test r s = (exec r s \<noteq> None)"

text \<open>\<open>m[k]\<close>: the text of capture group \<open>k\<close>, empty where the group took no part.\<close>

definition grp :: "rx_match \<Rightarrow> nat \<Rightarrow> string" where
  "grp m k = (case map_of (groups m) k of Some g \<Rightarrow> g | None \<Rightarrow> [])"

text \<open>Literal text, and literal text under the flag \<open>i\<close>.\<close>

fun lit :: "string \<Rightarrow> re" where
  "lit [] = Eps"
| "lit [c] = Cls [c]"
| "lit (c # cs) = Seq (Cls [c]) (lit cs)"

fun ci :: "string \<Rightarrow> re" where
  "ci [] = Eps"
| "ci [c] = Cls (lower_char c # upper_char c)"
| "ci (c # cs) = Seq (Cls (lower_char c # upper_char c)) (ci cs)"

fun alts :: "re list \<Rightarrow> re" where
  "alts [] = Eps"
| "alts [r] = r"
| "alts (r # rs) = Alt r (alts rs)"

fun seqs :: "re list \<Rightarrow> re" where
  "seqs [] = Eps"
| "seqs [r] = r"
| "seqs (r # rs) = Seq r (seqs rs)"

section \<open>The attribute bag\<close>

text \<open>
  The plain object \<open>info\<close> filled by the parsers and read by the name generators, and
  the fields of a \<open>Media\<close> instance read by its name methods, carry the same property
  names. An absent property is the empty string, the empty list or \<open>False\<close>: the source
  tests these properties for truthiness only.
\<close>

record bag =
  title :: string
  threeD :: bool
  threeDType :: string
  year :: string
  info :: string
  edition :: string
  imax :: bool
  isVOSTFR :: bool
  audioLanguages :: "string list"
  language :: string
  languageInfo :: string
  releaseGroup :: string
  tags :: "string list"
  hdr :: "string list"
  resolution :: string
  platform :: string
  source :: string
  audioCodecs :: "string list"
  audio :: string
  audioChannels :: string
  audioSpec :: string
  codec :: string
  season :: string
  episode :: string
  container :: string

definition empty_bag :: bag where
  "empty_bag = \<lparr>title = [], threeD = False, threeDType = [], year = [], info = [],
     edition = [], imax = False, isVOSTFR = False, audioLanguages = [], language = [],
     languageInfo = [], releaseGroup = [], tags = [], hdr = [], resolution = [],
     platform = [], source = [], audioCodecs = [], audio = [], audioChannels = [],
     audioSpec = [], codec = [], season = [], episode = [], container = []\<rparr>"

section \<open>Technical-metadata normalizer\<close>

definition alnum_chars :: "char list" where
  "alnum_chars = ''abcdefghijklmnopqrstuvwxyzABCDEFGHIJKLMNOPQRSTUVWXYZ0123456789''"

definition LANGUAGE_MAP :: "(string \<times> string) list" where
  "LANGUAGE_MAP =
    [(''french'', ''Fran'' @ [CHR 0xE7] @ ''ais''),
     (''fran'' @ [CHR 0xE7] @ ''ais'', ''Fran'' @ [CHR 0xE7] @ ''ais''),
     (''fr'', ''Fran'' @ [CHR 0xE7] @ ''ais''),
     (''english'', ''Anglais''), (''en'', ''Anglais''),
     (''spanish'', ''Espagnol''), (''espa'' @ [CHR 0xF1] @ ''ol'', ''Espagnol''), (''es'', ''Espagnol''),
     (''german'', ''Allemand''), (''deutsch'', ''Allemand''), (''de'', ''Allemand''),
     (''italian'', ''Italien''), (''italiano'', ''Italien''), (''it'', ''Italien''),
     (''portuguese'', ''Portugais''), (''portugu'' @ [CHR 0xEA] @ ''s'', ''Portugais''), (''pt'', ''Portugais''),
     (''japanese'', ''Japonais''), (''ja'', ''Japonais''),
     (''korean'', ''Cor'' @ [CHR 0xE9] @ ''en''), (''ko'', ''Cor'' @ [CHR 0xE9] @ ''en''),
     (''chinese'', ''Chinois''), (''zh'', ''Chinois''),
     (''russian'', ''Russe''), (''ru'', ''Russe''),
     (''arabic'', ''Arabe''), (''ar'', ''Arabe'')]"

text \<open>The three expressions of \<open>normalizeLang\<close>.\<close>

definition re_lang_vostfr :: re where
  "re_lang_vostfr = Alt (ci ''VOSTFR'')
     (seqs [ci ''VO'', Star (Cls (space_chars @ ''-'')), ci ''ST'',
            Rep 0 1 (ci ''F''), Rep 0 1 (ci ''R'')])"

definition re_lang_vf :: re where
  "re_lang_vf = Seq (ci ''VF'') (Cls ''fFqQ'')"

definition re_lang_base :: re where
  "re_lang_base = Seq Bol (Grp 1 (Plus (Cls (word_chars @ ''-''))))"

text \<open>
  \<open>normalizeLang\<close>. A key of \<open>LANGUAGE_MAP\<close> is looked up among its own entries; the
  matched base consists of word characters and hyphens and is lower case.
\<close>

definition normalizeLang :: "string \<Rightarrow> string" where
  "normalizeLang lang0 =
     (if lang0 = [] then ''Unknown''
      else
        let lang = trim lang0 in
        if test re_lang_vostfr lang then ''VOSTFR''
        else (case exec re_lang_vf lang of
                Some vffMatch \<Rightarrow>
                  (let vff = toUpperCase (matched vffMatch)
                   in if vff = ''VFQ'' then ''VFQ'' else ''VFF'')
              | None \<Rightarrow>
                  (case exec re_lang_base lang of
                     Some m \<Rightarrow>
                       (let base = toLowerCase (grp m 1)
                        in case map_of LANGUAGE_MAP base of
                             Some l \<Rightarrow> l
                           | None \<Rightarrow> lang)
                   | None \<Rightarrow> (if lang \<noteq> [] then lang else ''Unknown''))))"

text \<open>
  A track of the technical report is a JSON object with string values; a missing
  property reads as the empty string, which the source treats like \<open>undefined\<close>.
\<close>

type_synonym track = "(string \<times> string) list"

definition fld :: "track \<Rightarrow> string \<Rightarrow> string" where
  "fld t k = (case map_of t k of Some v \<Rightarrow> v | None \<Rightarrow> [])"

text \<open>
  \<open>parseInt(s)\<close>: leading white space, an optional sign, then hexadecimal digits after
  \<open>0x\<close> or decimal digits; \<open>None\<close> stands for \<open>NaN\<close>.
\<close>

definition digit_val :: "char \<Rightarrow> int option" where
  "digit_val c = (let n = (of_char c :: nat) in
     if 48 \<le> n \<and> n \<le> 57 then Some (int n - 48)
     else if 97 \<le> n \<and> n \<le> 102 then Some (int n - 87)
     else if 65 \<le> n \<and> n \<le> 70 then Some (int n - 55)
     else None)"

definition digits_prefix :: "int \<Rightarrow> string \<Rightarrow> int option" where
  "digits_prefix radix s =
     (let ds = takeWhile (\<lambda>c. case digit_val c of Some d \<Rightarrow> d < radix | None \<Rightarrow> False) s
      in if ds = [] then None
         else Some (foldl (\<lambda>a c. radix * a + the (digit_val c)) 0 ds))"

definition parseInt :: "string \<Rightarrow> int option" where
  "parseInt s0 =
     (let s = dropWhile is_space s0;
          neg = (s \<noteq> [] \<and> hd s = CHR ''-'');
          s = (if s \<noteq> [] \<and> (hd s = CHR ''-'' \<or> hd s = CHR ''+'') then tl s else s);
          v = (if startsWith s ''0x'' \<or> startsWith s ''0X'' then digits_prefix 16 (drop 2 s)
               else digits_prefix 10 s)
      in map_option (\<lambda>n. if neg then - n else n) v)"

text \<open>\<open>parseInt(s) || 0\<close>.\<close>

definition parseInt_or0 :: "string \<Rightarrow> int" where
  "parseInt_or0 s = (case parseInt s of Some n \<Rightarrow> n | None \<Rightarrow> 0)"

text \<open>The resolution chain of \<open>parseMediaInfo\<close>; \<open>None\<close> leaves \<open>info.resolution\<close> unset.\<close>

definition resolution_of :: "int \<Rightarrow> int \<Rightarrow> string option" where
  "resolution_of width height =
     (if width \<ge> 3840 \<or> height \<ge> 2100 then Some ''2160p''
      else if width \<ge> 1920 \<or> height \<ge> 1000 then Some ''1080p''
      else if width \<ge> 1280 \<or> height \<ge> 700 then Some ''720p''
      else if width > 0 \<or> height > 0 then Some ''480p''
      else None)"

definition video_codec_of :: "string \<Rightarrow> string \<Rightarrow> string" where
  "video_codec_of format encodedLib =
     (if str_includes encodedLib ''x265'' \<or> format = ''HEVC'' then ''x265''
      else if str_includes encodedLib ''x264'' \<or> format = ''AVC'' then ''x264''
      else if format = ''AV1'' then ''AV1''
      else format)"

definition hdr_of :: "track \<Rightarrow> string list" where
  "hdr_of videoTrack =
     (let hdrFmt = fld videoTrack ''HDR_Format'';
          h1 = (if hdrFmt = [] then []
                else (if str_includes hdrFmt ''HDR10+'' then [''HDR10+'']
                      else if str_includes hdrFmt ''HDR10'' then [''HDR10'']
                      else if str_includes hdrFmt ''HDR'' then [''HDR'']
                      else [])
                     @ (if str_includes hdrFmt ''Dolby Vision''
                           \<or> str_includes (fld videoTrack ''HDR_Format_Compatibility'') ''HDR10''
                        then [''DV''] else []));
          h2 = (if str_includes (fld videoTrack ''transfer_characteristics'') ''HLG''
                then [''HLG''] else [])
      in h1 @ h2)"

definition audio_codec_of :: "track \<Rightarrow> string" where
  "audio_codec_of t =
     (let codec = fld t ''Format'';
          commercial = fld t ''Format_Commercial'';
          codec =
            (if str_includes codec ''E-AC-3'' \<or> str_includes codec ''EAC3'' then ''EAC3''
             else if str_includes codec ''AC-3'' \<or> codec = ''AC3'' then ''AC3''
             else if str_includes codec ''DTS'' then
               (if str_includes commercial ''DTS:X'' then ''DTS:X''
                else if str_includes codec ''DTS-HD MA'' then ''DTS-HD MA''
                else if str_includes codec ''DTS-HD'' then ''DTS-HD''
                else ''DTS'')
             else if str_includes codec ''MLP'' \<or> str_includes codec ''TrueHD'' then ''TrueHD''
             else if str_includes codec ''AAC'' then ''AAC''
             else if str_includes codec ''FLAC'' then ''FLAC''
             else if str_includes codec ''Opus'' then ''Opus''
             else codec)
      in if str_includes commercial ''Atmos''
            \<or> str_includes (fld t ''Format_AdditionalFeatures'') ''Atmos''
         then (if codec = ''TrueHD'' then ''TrueHD Atmos''
               else if codec = ''EAC3'' then ''E-AC3 Atmos''
               else codec @ '' Atmos'')
         else codec)"

text \<open>\<open>track.Language || track.Title || 'Unknown'\<close>.\<close>

definition track_lang :: "track \<Rightarrow> string" where
  "track_lang t =
     normalizeLang (if fld t ''Language'' \<noteq> [] then fld t ''Language''
                    else if fld t ''Title'' \<noteq> [] then fld t ''Title'' else ''Unknown'')"

text \<open>Insertion into a JavaScript \<open>Set\<close>, which keeps the order of first insertion.\<close>

definition set_add :: "'a \<Rightarrow> 'a list \<Rightarrow> 'a list" where
  "set_add x xs = (if x \<in> set xs then xs else xs @ [x])"

definition to_set :: "'a list \<Rightarrow> 'a list" where
  "to_set xs = foldl (\<lambda>acc x. set_add x acc) [] xs"

definition is_french_lang :: "string \<Rightarrow> bool" where
  "is_french_lang l =
     (str_includes (toLowerCase l) (''fran'' @ [CHR 0xE7] @ ''ais'')
      \<or> str_includes (toLowerCase l) ''vff'' \<or> str_includes (toLowerCase l) ''vfq'')"

text \<open>
  \<open>parseMediaInfo\<close>, for the properties the name composer and the tag resolver read:
  \<open>container\<close>, \<open>resolution\<close>, \<open>codec\<close>, \<open>hdr\<close>, \<open>audioLanguages\<close>, \<open>audioCodecs\<close> and
  \<open>language\<close>. The display-only properties (bit rates, per-track descriptions, subtitle
  labels) are not part of the bag. The argument is the list \<open>media.track\<close>.
\<close>

definition parseMediaInfo :: "track list \<Rightarrow> bag" where
  "parseMediaInfo tracks =
     (let generalTrack = find (\<lambda>t. fld t ''@type'' = ''General'') tracks;
          videoTrack = find (\<lambda>t. fld t ''@type'' = ''Video'') tracks;
          b = empty_bag;
          b = (case videoTrack of
                 None \<Rightarrow> b
               | Some v \<Rightarrow>
                   (let fmt = (case generalTrack of Some g \<Rightarrow> fld g ''Format'' | None \<Rightarrow> []);
                        b = (if fmt \<noteq> [] then
                               b\<lparr>container :=
                                   (if str_includes fmt ''Matroska'' then ''MKV''
                                    else if str_includes fmt ''MPEG-4'' then ''MP4''
                                    else if str_includes fmt ''AVI'' then ''AVI''
                                    else fmt)\<rparr>
                             else b);
                        width = parseInt_or0 (fld v ''Width'');
                        height = parseInt_or0 (fld v ''Height'');
                        b = (case resolution_of width height of
                               Some r \<Rightarrow> b\<lparr>resolution := r\<rparr> | None \<Rightarrow> b);
                        b = b\<lparr>codec := video_codec_of (fld v ''Format'') (fld v ''Encoded_Library'')\<rparr>
                    in b\<lparr>hdr := hdr_of v\<rparr>));
          audioTracks = filter (\<lambda>t. fld t ''@type'' = ''Audio'') tracks
      in if length audioTracks > 0 then
           (let langs = map track_lang audioTracks;
                b = b\<lparr>audioLanguages := langs,
                       audioCodecs := to_set (map audio_codec_of audioTracks)\<rparr>;
                hasFrench = list_ex is_french_lang langs;
                hasNonFrench = list_ex (\<lambda>l. \<not> is_french_lang l) langs
            in if hasFrench \<and> hasNonFrench then b\<lparr>language := ''MULTi''\<rparr>
               else if hasFrench then b\<lparr>language := ''FRENCH''\<rparr>
               else b)
         else b)"

section \<open>Token parser\<close>

text \<open>The expressions of \<open>parseReleaseName\<close>, in the order of the source.\<close>

definition re_videoExtension :: re where
  "re_videoExtension =
     seqs [lit ''.'', Grp 1 (alts [ci ''mkv'', ci ''mp4'', ci ''avi'', ci ''iso'']), Eol]"

definition re_group :: re where
  "re_group = seqs [lit ''-'', Grp 1 (Plus (Cls (alnum_chars @ ''[]''))), Eol]"

definition re_resolution :: re where
  "re_resolution =
     seqs [Bol, Grp 1 (alts [lit ''2160'', lit ''1080'', lit ''720'', lit ''576'', lit ''480'',
                             lit ''4320'']), ci ''p'', Eol]"

definition re_year :: re where
  "re_year = seqs [Bnd, Grp 1 (Alt (lit ''19'') (lit ''20'')), Rep 2 2 (Cls digit_chars), Bnd]"

definition re_season :: re where
  "re_season =
     Alt (seqs [Bnd, Alt (ci ''S'') (ci ''Season''), Rep 0 1 (Cls space_chars),
                Grp 1 (Rep 1 2 (Cls digit_chars)), Bnd])
         (seqs [Bnd, Grp 2 (Alt (ci ''Complete'') (ci ''Integrale'')), Bnd])"

definition re_episode :: re where
  "re_episode =
     seqs [Bnd, Alt (ci ''E'') (ci ''Episode''), Rep 0 1 (Cls space_chars),
           Grp 1 (Rep 1 3 (Cls digit_chars)), Bnd]"

definition re_seasonEpisode :: re where
  "re_seasonEpisode =
     seqs [Bnd, ci ''S'', Grp 1 (Rep 1 2 (Cls digit_chars)), ci ''E'',
           Grp 2 (Rep 1 3 (Cls digit_chars)), Bnd]"

definition re_source :: re where
  "re_source =
     seqs [Bnd,
           Grp 1 (alts [ci ''Bluray'', ci ''BluRay'', ci ''BDRip'', ci ''BRRip'', ci ''WEBRip'',
                        ci ''WebRip'', ci ''WEB-DL'', ci ''WEBDL'', ci ''WEB'', ci ''HDTV'',
                        ci ''DVDRip'']),
           Bnd]"

definition re_vostfr :: re where
  "re_vostfr =
     seqs [Alt Bol (Cls (''.'' @ space_chars @ ''-'')), ci ''VOSTFR'',
           Alt (Cls (''.'' @ space_chars @ ''-'')) Eol]"

definition re_ebookFormat :: re where
  "re_ebookFormat =
     seqs [lit ''.'',
           Grp 1 (alts [ci ''epub'', ci ''pdf'', ci ''mobi'', Seq (ci ''azw'') (Rep 0 1 (lit ''3'')),
                        ci ''cbr'', ci ''cbz'']),
           Eol]"

text \<open>\<open>s.replace(r, x)\<close> with an expression without the flag \<open>g\<close>: the first match only.\<close>

definition replace_re :: "re \<Rightarrow> string \<Rightarrow> string \<Rightarrow> string" where
  "replace_re r x s =
     (case exec r s of
        None \<Rightarrow> s
      | Some m \<Rightarrow> take (index m) s @ x @ drop (index m + length (matched m)) s)"

definition padStart2 :: "string \<Rightarrow> string" where
  "padStart2 s = replicate (2 - length s) (CHR ''0'') @ s"

text \<open>
  \<open>Object.assign(info, nfoInfo)\<close>: every property that \<open>parseMediaInfo\<close> has set
  replaces the one from the name.
\<close>

definition assign_bag :: "bag \<Rightarrow> bag \<Rightarrow> bag" where
  "assign_bag b nfo =
     b\<lparr>container := (if container nfo \<noteq> [] then container nfo else container b),
       resolution := (if resolution nfo \<noteq> [] then resolution nfo else resolution b),
       codec := (if codec nfo \<noteq> [] then codec nfo else codec b),
       hdr := (if hdr nfo \<noteq> [] then hdr nfo else hdr b),
       audioLanguages := (if audioLanguages nfo \<noteq> [] then audioLanguages nfo else audioLanguages b),
       audioCodecs := (if audioCodecs nfo \<noteq> [] then audioCodecs nfo else audioCodecs b),
       language := (if language nfo \<noteq> [] then language nfo else language b)\<rparr>"

text \<open>
  \<open>parseReleaseName(name, nfoContent)\<close>; \<open>None\<close> is the default second argument, and
  \<open>Some tracks\<close> a technical report with the track list \<open>tracks\<close>.
\<close>

definition parseReleaseName :: "string \<Rightarrow> track list option \<Rightarrow> bag" where
  "parseReleaseName name nfoContent =
     (let b = empty_bag;
          cleanName = trim name;
          cleanName = replace_re re_videoExtension [] cleanName;
          b = (case exec re_group cleanName of
                 Some groupMatch \<Rightarrow>
                   (if \<not> test re_resolution (grp groupMatch 1)
                    then b\<lparr>releaseGroup := grp groupMatch 1\<rparr> else b)
               | None \<Rightarrow> b);
          firstTagIndex = length cleanName;
          ebookMatch = exec re_ebookFormat cleanName;
          b = (case ebookMatch of
                 Some m \<Rightarrow> b\<lparr>container := toUpperCase (grp m 1)\<rparr> | None \<Rightarrow> b);
          cleanName = (case ebookMatch of
                         Some m \<Rightarrow> replace_re re_ebookFormat [] cleanName | None \<Rightarrow> cleanName);
          yearMatch = exec re_year cleanName;
          b = (case yearMatch of Some m \<Rightarrow> b\<lparr>year := matched m\<rparr> | None \<Rightarrow> b);
          firstTagIndex = (case yearMatch of
                             Some m \<Rightarrow> if index m < firstTagIndex then index m else firstTagIndex
                           | None \<Rightarrow> firstTagIndex);
          sxeMatch = exec re_seasonEpisode cleanName;
          seasonMatch = (if sxeMatch = None then exec re_season cleanName else None);
          epMatch = (if sxeMatch = None then exec re_episode cleanName else None);
          b = (case sxeMatch of
                 Some m \<Rightarrow> b\<lparr>season := ''S'' @ padStart2 (grp m 1),
                              episode := ''E'' @ padStart2 (grp m 2)\<rparr>
               | None \<Rightarrow>
                   (let b = (case seasonMatch of
                               Some m \<Rightarrow>
                                 b\<lparr>season := (if grp m 2 \<noteq> [] then toUpperCase (grp m 2)
                                                else ''S'' @ padStart2 (grp m 1))\<rparr>
                             | None \<Rightarrow> b)
                    in case epMatch of
                         Some m \<Rightarrow> b\<lparr>episode := ''E'' @ padStart2 (grp m 1)\<rparr>
                       | None \<Rightarrow> b));
          firstTagIndex = fold (\<lambda>mo i. case mo of
                                         Some m \<Rightarrow> if index m < i then index m else i
                                       | None \<Rightarrow> i)
                            [sxeMatch, seasonMatch, epMatch] firstTagIndex;
          sourceMatch = exec re_source cleanName;
          b = (case sourceMatch of Some m \<Rightarrow> b\<lparr>source := matched m\<rparr> | None \<Rightarrow> b);
          firstTagIndex = (case sourceMatch of
                             Some m \<Rightarrow> if index m < firstTagIndex then index m else firstTagIndex
                           | None \<Rightarrow> firstTagIndex);
          potentialTitle = take firstTagIndex cleanName;
          potentialTitle = map (\<lambda>c. if c = CHR ''.'' then CHR '' '' else c) potentialTitle;
          potentialTitle = map (\<lambda>c. if c = CHR ''_'' then CHR '' '' else c) potentialTitle;
          potentialTitle = rev (dropWhile (\<lambda>c. c \<in> set ''-()'') (rev potentialTitle));
          potentialTitle = trim potentialTitle;
          b = (if potentialTitle \<noteq> [] then b\<lparr>title := potentialTitle\<rparr> else b);
          b = (case nfoContent of
                 Some tracks \<Rightarrow> assign_bag b (parseMediaInfo tracks) | None \<Rightarrow> b)
      in if test re_vostfr name then b\<lparr>isVOSTFR := True\<rparr> else b)"

section \<open>Name composer\<close>

definition francais :: string where
  "francais = ''fran'' @ [CHR 0xE7] @ ''ais''"

text \<open>
  \<open>detectFrenchVariant(releaseGroup, tags)\<close>. The search text is upper case, so the
  keywords with an accented letter are written with the upper-case E acute (U+00C9). An
  absent release group enters the search text as the word \<open>undefined\<close>, which holds none
  of the keywords, so that the empty string gives the same result.
\<close>

definition detectFrenchVariant :: "string \<Rightarrow> string list \<Rightarrow> string" where
  "detectFrenchVariant rg tgs =
     (let searchText = toUpperCase (rg @ '' '' @ join '' '' tgs) in
      if str_includes searchText ''VFQ''
         \<or> str_includes searchText (''QU'' @ [CHR 0xC9] @ ''BEC'')
         \<or> str_includes searchText ''QUEBEC''
         \<or> str_includes searchText ''CANADIAN''
         \<or> str_includes searchText ''CANADA''
         \<or> str_includes searchText ''QUEBECOIS''
         \<or> str_includes searchText (''QU'' @ [CHR 0xC9] @ ''B'' @ [CHR 0xC9] @ ''COIS'')
      then ''VFQ''
      else if str_includes searchText ''VFF''
         \<or> str_includes searchText ''FRENCH''
         \<or> str_includes searchText ''FRANCE''
         \<or> str_includes searchText ''EUROPEAN''
      then ''VFF''
      else ''VFF'')"

definition known_langs :: "string list" where
  "known_langs = [''vff'', ''vfq'', francais, ''french'', ''anglais'', ''english'', ''en'']"

text \<open>\<open>generateLanguageParts(info)\<close>.\<close>

definition generateLanguageParts :: "bag \<Rightarrow> string list" where
  "generateLanguageParts b =
     (if isVOSTFR b then [''VOSTFR'']
      else if length (audioLanguages b) > 0 then
        (let hasEnglish = list_ex (\<lambda>l. toLowerCase l = ''anglais'' \<or> toLowerCase l = ''english''
                                        \<or> toLowerCase l = ''en'') (audioLanguages b);
             hasVFF = list_ex (\<lambda>l. toLowerCase l = ''vff'') (audioLanguages b);
             hasVFQ = list_ex (\<lambda>l. toLowerCase l = ''vfq'') (audioLanguages b);
             hasFrench = list_ex (\<lambda>l. str_includes (toLowerCase l) francais
                                       \<or> str_includes (toLowerCase l) ''french'') (audioLanguages b);
             otherLanguages = filter (\<lambda>l. toLowerCase l \<notin> set known_langs) (audioLanguages b)
         in if hasEnglish \<and> \<not> hasVFF \<and> \<not> hasVFQ \<and> \<not> hasFrench \<and> length otherLanguages = 0
              then [''VOSTFR'']
            else if hasEnglish \<and> (hasVFQ \<or> hasVFF) \<and> length otherLanguages = 0
              then [''MULTI'']
            else if hasVFF \<and> hasVFQ \<and> \<not> hasEnglish \<and> \<not> hasFrench \<and> length otherLanguages = 0
              then [''MULTI'']
            else if hasVFF \<and> \<not> hasVFQ \<and> \<not> hasEnglish \<and> \<not> hasFrench \<and> length otherLanguages = 0
              then [''VFF'']
            else if hasVFQ \<and> \<not> hasVFF \<and> \<not> hasEnglish \<and> \<not> hasFrench \<and> length otherLanguages = 0
              then [''VFQ'']
            else if hasFrench \<and> \<not> hasVFF \<and> \<not> hasVFQ \<and> length otherLanguages > 0
              then [''MULTI'']
            else if hasFrench \<and> \<not> hasVFF \<and> \<not> hasVFQ \<and> length otherLanguages = 0
              then [toUpperCase (detectFrenchVariant (releaseGroup b) (tags b))]
            else if length otherLanguages > 1 then [''MULTI'']
            else if length otherLanguages = 1 then [toUpperCase (hd otherLanguages)]
            else [])
      else if language b \<noteq> [] then
        (let lang = toUpperCase (language b) in [if lang = ''MULTI'' then ''MULTi'' else lang])
      else [])"

text \<open>\<open>Media.getLanguageParts()\<close>.\<close>

definition getLanguageParts :: "bag \<Rightarrow> string list" where
  "getLanguageParts b =
     (if isVOSTFR b then [''VOSTFR'']
      else if length (audioLanguages b) > 0 then
        (let hasEnglish = list_ex (\<lambda>l. toLowerCase l \<in> set [''anglais'', ''english'', ''en''])
                            (audioLanguages b);
             hasVFF = list_ex (\<lambda>l. toLowerCase l = ''vff'') (audioLanguages b);
             hasVFQ = list_ex (\<lambda>l. toLowerCase l = ''vfq'') (audioLanguages b);
             hasFrench = list_ex (\<lambda>l. str_includes (toLowerCase l) francais
                                       \<or> str_includes (toLowerCase l) ''french'') (audioLanguages b);
             otherLanguages = filter (\<lambda>l. toLowerCase l \<notin> set known_langs) (audioLanguages b)
         in if hasEnglish \<and> \<not> hasVFF \<and> \<not> hasVFQ \<and> \<not> hasFrench \<and> length otherLanguages = 0
              then [''VOSTFR'']
            else if hasEnglish \<and> (hasVFQ \<or> hasVFF) \<and> length otherLanguages = 0
              then [''MULTI'']
            else if hasVFF \<and> hasVFQ \<and> \<not> hasEnglish \<and> \<not> hasFrench \<and> length otherLanguages = 0
              then [''MULTI'']
            else if hasVFF \<and> \<not> hasVFQ \<and> \<not> hasEnglish \<and> \<not> hasFrench \<and> length otherLanguages = 0
              then [''VFF'']
            else if hasVFQ \<and> \<not> hasVFF \<and> \<not> hasEnglish \<and> \<not> hasFrench \<and> length otherLanguages = 0
              then [''VFQ'']
            else if hasFrench \<and> \<not> hasVFF \<and> \<not> hasVFQ \<and> length otherLanguages > 0
              then [''MULTI'']
            else if hasFrench \<and> \<not> hasVFF \<and> \<not> hasVFQ \<and> length otherLanguages = 0
              then [''VFF'']
            else if length otherLanguages > 1 then [''MULTI'']
            else if length otherLanguages = 1 then [toUpperCase (hd otherLanguages)]
            else [])
      else if language b \<noteq> [] then
        [if toUpperCase (language b) = ''MULTI'' then ''MULTi'' else toUpperCase (language b)]
      else [])"

text \<open>\<open>generateLanguageInfoParts(info)\<close>.\<close>

definition generateLanguageInfoParts :: "bag \<Rightarrow> string list" where
  "generateLanguageInfoParts b =
     (if length (audioLanguages b) > 0 then
        (let hasVFF = list_ex (\<lambda>l. toLowerCase l = ''vff'') (audioLanguages b);
             hasVFQ = list_ex (\<lambda>l. toLowerCase l = ''vfq'') (audioLanguages b);
             otherLanguages = filter (\<lambda>l. toLowerCase l \<noteq> ''vff'' \<and> toLowerCase l \<noteq> ''vfq''
                                      \<and> \<not> str_includes (toLowerCase l) francais
                                      \<and> \<not> str_includes (toLowerCase l) ''french'') (audioLanguages b)
         in if (hasVFF \<or> hasVFQ) \<and> length otherLanguages > 0
            then [if hasVFQ then ''VFQ'' else ''TrueFrench''] else [])
      else [])
     @ (if languageInfo b \<noteq> [] then [toUpperCase (languageInfo b)] else [])"

text \<open>
  The table \<open>sourcePatterns\<close> of \<open>generateSourcePart\<close>, in the order of its entries; the dot
  of \<open>WEB.RIP\<close> stands for any character but a line terminator.
\<close>

definition sourcePatterns :: "(string \<times> re) list" where
  "sourcePatterns =
    [(''REMUX'', lit ''REMUX''),
     (''WEB-DL'', Alt (lit ''WEB-DL'') (lit ''WEBDL'')),
     (''WEB'', seqs [Bol, lit ''WEB'', Eol]),
     (''WEBRip'', Alt (lit ''WEBRIP'') (seqs [lit ''WEB'', NCls [CHR 0x0A, CHR 0x0D], lit ''RIP''])),
     (''HDTV'', lit ''HDTV''),
     (''HDLight'', lit ''HDLIGHT''),
     (''4KLight'', lit ''4KLIGHT''),
     (''BluRay'', alts [lit ''BLURAY'', lit ''BLU-RAY'', lit ''BDRIP'', lit ''BRRIP'']),
     (''DVDRip'', Alt (lit ''DVDRIP'') (lit ''DVD-RIP''))]"

text \<open>The canonical spelling of a source, shared by both source functions.\<close>

definition canonical_source :: "string \<Rightarrow> string" where
  "canonical_source src =
     (let s = toLowerCase src in
      if s = ''web-dl'' \<or> s = ''webdl'' then ''WEB-DL''
      else if s = ''webrip'' then ''WEBRip''
      else if s = ''bluray'' \<or> s = ''blu-ray'' \<or> s = ''bdrip'' \<or> s = ''brrip'' then ''BluRay''
      else if s = ''remux'' then ''REMUX''
      else if s = ''hdlight'' then ''HDLight''
      else if s = ''4klight'' then ''4KLight''
      else if s = ''dvdrip'' then ''DVDRip''
      else if s = ''hdtv'' then ''HDTV''
      else src)"

text \<open>\<open>generateSourcePart(info)\<close>.\<close>

definition generateSourcePart :: "bag \<Rightarrow> string" where
  "generateSourcePart b =
     (let allText = toUpperCase (source b @ '' '' @ releaseGroup b @ '' '' @ join '' '' (tags b));
          detectedSources = map fst (filter (\<lambda>(sourceName, pattern). test pattern allText) sourcePatterns);
          detectedSources = (if source b \<noteq> [] then set_add (canonical_source (source b)) detectedSources
                             else detectedSources)
      in join ''.'' detectedSources)"

text \<open>\<open>Media.getSourcePart()\<close>.\<close>

definition getSourcePart :: "bag \<Rightarrow> string" where
  "getSourcePart b = (if source b = [] then [] else canonical_source (source b))"

definition re_ws_atmos :: re where
  "re_ws_atmos = Seq (Plus (Cls space_chars)) (lit ''ATMOS'')"

definition re_ws_dtsx :: re where
  "re_ws_dtsx = Seq (Plus (Cls space_chars)) (lit ''DTS:X'')"

definition audioSpecs_of :: "string list \<Rightarrow> string list" where
  "audioSpecs_of cs =
     foldl (\<lambda>specs c.
              let lower = toLowerCase c;
                  specs = (if str_includes lower ''atmos'' then set_add ''Atmos'' specs else specs)
              in if str_includes lower ''dts:x'' \<or> str_includes lower ''dtsx''
                 then set_add ''DTS:X'' specs else specs) [] cs"

text \<open>\<open>generateAudioParts(info)\<close>.\<close>

definition generateAudioParts :: "bag \<Rightarrow> string list" where
  "generateAudioParts b =
     (if length (audioCodecs b) > 0 then
        [join ''.'' (to_set (map (\<lambda>c.
            let codec = toUpperCase c;
                codec = (if codec = ''TRUEHD ATMOS'' \<or> str_includes codec ''TRUEHD'' then ''TrueHD''
                         else if codec = ''E-AC3 ATMOS'' \<or> codec = ''EAC3 ATMOS''
                                 \<or> str_includes codec ''E-AC3'' then ''EAC3''
                         else if codec = ''DTS:X'' then ''DTS:X''
                         else if str_includes codec ''DTS'' then ''DTS''
                         else codec)
            in replace_re re_ws_dtsx [] (replace_re re_ws_atmos [] codec)) (audioCodecs b)))]
      else if audio b \<noteq> [] then
        (let a = toUpperCase (audio b);
             a = (if a = ''DDP'' \<or> a = ''E-AC-3'' then ''EAC3'' else a);
             a = (if a = ''DD'' \<or> a = ''AC-3'' then ''AC3'' else a)
         in [a])
      else [])
     @ (if audioChannels b \<noteq> [] then [audioChannels b] else [])
     @ (if length (audioCodecs b) > 0 \<and> length (audioSpecs_of (audioCodecs b)) > 0
        then [join ''.'' (audioSpecs_of (audioCodecs b))] else [])
     @ (if audioSpec b \<noteq> [] then [audioSpec b] else [])"

text \<open>\<open>Media.getAudioParts()\<close>.\<close>

definition getAudioParts :: "bag \<Rightarrow> string list" where
  "getAudioParts b =
     (if length (audioCodecs b) > 0 then
        [join ''.'' (to_set (map (\<lambda>c.
            let codec = toUpperCase c in
            if str_includes codec ''TRUEHD'' then ''TrueHD''
            else if str_includes codec ''E-AC3'' \<or> str_includes codec ''EAC3'' then ''EAC3''
            else if codec = ''DTS:X'' then ''DTS:X''
            else if str_includes codec ''DTS'' then ''DTS''
            else replace_re re_ws_dtsx [] (replace_re re_ws_atmos [] codec)) (audioCodecs b)))]
      else [])
     @ (if audioChannels b \<noteq> [] then [audioChannels b] else [])
     @ (if length (audioCodecs b) > 0 \<and> length (audioSpecs_of (audioCodecs b)) > 0
        then [join ''.'' (audioSpecs_of (audioCodecs b))] else [])"

text \<open>
  The HDR slot. \<open>hdrOrder.indexOf(a)\<close> is \<open>-1\<close> for a label that is not in the list, and
  \<open>Array.prototype.sort\<close> is stable, so the comparator sorts stably by that index.
\<close>

definition hdrOrder :: "string list" where
  "hdrOrder = [''HDR10+'', ''HDR10'', ''HDR'', ''DV'', ''HLG'', ''SDR'']"

fun indexOf :: "string list \<Rightarrow> string \<Rightarrow> int" where
  "indexOf [] a = -1"
| "indexOf (x # xs) a = (if x = a then 0 else (let i = indexOf xs a in if i < 0 then -1 else i + 1))"

definition hdr_label :: "string \<Rightarrow> string" where
  "hdr_label h = replace_first (toUpperCase h) ''DOLBY VISION'' ''DV''"

text \<open>\<open>Media.getHdrParts()\<close>, and the same expression inlined in the two generators.\<close>

definition getHdrParts :: "bag \<Rightarrow> string list" where
  "getHdrParts b =
     (if length (hdr b) = 0 then []
      else sort_key (indexOf hdrOrder) (map hdr_label (hdr b)))"

text \<open>\<open>Media.getResolutionPart()\<close>.\<close>

definition getResolutionPart :: "bag \<Rightarrow> string" where
  "getResolutionPart b =
     (if resolution b = [] then []
      else let res = toLowerCase (resolution b) in if endsWith res ''p'' then res else res @ ''p'')"

text \<open>\<open>Media.getCodecPart()\<close>, and the same statements inlined in the two generators.\<close>

definition getCodecPart :: "bag \<Rightarrow> string" where
  "getCodecPart b =
     (if codec b = [] then []
      else let c = toUpperCase (codec b) in
           if c = ''H264'' \<or> c = ''H.264'' \<or> c = ''AVC'' then ''x264''
           else if c = ''H265'' \<or> c = ''H.265'' \<or> c = ''HEVC'' then ''x265''
           else c)"

text \<open>The list \<open>parts\<close> of \<open>generateMovieReleaseName(info)\<close> before it is joined.\<close>

definition movie_parts :: "bag \<Rightarrow> string list" where
  "movie_parts b =
     (if title b \<noteq> [] then [normalizeTitle (title b)] else [])
     @ (if threeD b then [''3D''] else [])
     @ (if threeDType b \<noteq> [] then [threeDType b] else [])
     @ (if year b \<noteq> [] then [year b] else [])
     @ (if info b \<noteq> [] then [toUpperCase (info b)] else [])
     @ (if edition b \<noteq> [] then [edition b] else [])
     @ (if imax b then [''iMAX''] else [])
     @ generateLanguageParts b
     @ generateLanguageInfoParts b
     @ getHdrParts b
     @ (if resolution b \<noteq> [] then [getResolutionPart b] else [])
     @ (if platform b \<noteq> [] then [toUpperCase (platform b)] else [])
     @ (if generateSourcePart b \<noteq> [] then [generateSourcePart b] else [])
     @ generateAudioParts b
     @ (if codec b \<noteq> [] then [getCodecPart b] else [])"

definition team :: "bag \<Rightarrow> string" where
  "team b = (if releaseGroup b \<noteq> [] then releaseGroup b else ''NoTag'')"

definition generateMovieReleaseName :: "bag \<Rightarrow> string" where
  "generateMovieReleaseName b = join ''.'' (movie_parts b) @ ''-'' @ team b"



text \<open>The list \<open>parts\<close> of \<open>Film.generateName()\<close>.\<close>

definition film_parts :: "bag \<Rightarrow> string list" where
  "film_parts b =
     (if title b \<noteq> [] then [normalizeTitle (title b)] else [])
     @ (if threeD b then [''3D''] else [])
     @ (if threeDType b \<noteq> [] then [threeDType b] else [])
     @ (if year b \<noteq> [] then [year b] else [])
     @ (if info b \<noteq> [] then [toUpperCase (info b)] else [])
     @ (if edition b \<noteq> [] then [edition b] else [])
     @ (if imax b then [''iMAX''] else [])
     @ getLanguageParts b
     @ getHdrParts b
     @ (if getResolutionPart b \<noteq> [] then [getResolutionPart b] else [])
     @ (if platform b \<noteq> [] then [toUpperCase (platform b)] else [])
     @ (if getSourcePart b \<noteq> [] then [getSourcePart b] else [])
     @ getAudioParts b
     @ (if getCodecPart b \<noteq> [] then [getCodecPart b] else [])"

definition Film_generateName :: "bag \<Rightarrow> string" where
  "Film_generateName b = join ''.'' (film_parts b) @ ''-'' @ team b"

section \<open>Serie\<close>

text \<open>
  A \<open>Serie\<close> instance: the fields of \<open>Media\<close> and those that the constructor, the
  accessors and \<open>getAutoTags\<close> use. The fields \<open>season\<close>, \<open>episode\<close> and \<open>isPack\<close> stand
  for the private \<open>_season\<close>, \<open>_episode\<close> and \<open>_isPack\<close>.
\<close>

record serie = bag +
  path :: string
  extension :: string
  subtitles :: "string list"
  genres :: "string list"
  episodeCount :: int
  isPack :: bool

text \<open>\<open>_updateIsPack()\<close>.\<close>

definition updateIsPack :: "serie \<Rightarrow> serie" where
  "updateIsPack s =
     (if episode s \<noteq> [] \<and> trim (episode s) \<noteq> [] then s\<lparr>isPack := False\<rparr>
      else if episodeCount s > 1 then s\<lparr>isPack := True\<rparr>
      else s)"


definition set_season :: "serie \<Rightarrow> string \<Rightarrow> serie" where
  "set_season s v = updateIsPack (s\<lparr>season := v\<rparr>)"


definition set_isPack :: "serie \<Rightarrow> bool \<Rightarrow> serie" where
  "set_isPack s v = s\<lparr>isPack := v\<rparr>"


section \<open>Tag resolver\<close>






























section \<open>Predicates of the properties\<close>



text \<open>
  The ASCII characters that \<open>normalizeTitle\<close> neither removes nor replaces, and those
  among them that are not white space.
\<close>

definition kept_char :: "char \<Rightarrow> bool" where
  "kept_char c = (let n = (of_char c :: nat) in
     n < 128 \<and> n \<notin> {39, 96, 44, 59, 125, 123, 91, 93, 58, 45})"

definition plain_char :: "char \<Rightarrow> bool" where
  "plain_char c = (kept_char c \<and> (of_char c :: nat) \<notin> {32, 9, 10, 11, 12, 13})"


text \<open>The upper-case form of an ASCII character, as one character.\<close>

definition upper1 :: "char \<Rightarrow> char" where
  "upper1 c = (if is_lower c then char_of (of_char c - (32::nat)) else c)"






section \<open>Properties of the technical-metadata normalizer\<close>










section \<open>Properties of the HDR slot\<close>

lemma indexOf_nonneg_iff: "0 \<le> indexOf xs a \<longleftrightarrow> a \<in> set xs"
  by (induction xs) (auto simp: Let_def)

lemma getHdrParts_sorted: "sorted (map (indexOf hdrOrder) (getHdrParts b))"
  by (simp add: getHdrParts_def)

lemma indexOf_nth: "0 \<le> indexOf xs a \<Longrightarrow> xs ! nat (indexOf xs a) = a"
proof (induction xs)
  case Nil
  then show ?case by simp
next
  case (Cons x xs)
  show ?case
  proof (cases "x = a")
    case True
    then show ?thesis by simp
  next
    case False
    with Cons.prems have p: "0 \<le> indexOf xs a"
      by (auto simp: Let_def split: if_splits)
    with False have "indexOf (x # xs) a = indexOf xs a + 1" by (simp add: Let_def)
    with p Cons.IH [OF p] show ?thesis by (simp add: nat_add_distrib)
  qed
qed

lemma indexOf_inj:
  assumes "a \<in> set xs" and "indexOf xs a = indexOf xs b"
  shows "a = b"
proof -
  from assms(1) have ia: "0 \<le> indexOf xs a" by (simp add: indexOf_nonneg_iff)
  then have ib: "0 \<le> indexOf xs b" by (simp only: assms(2))
  have "a = xs ! nat (indexOf xs a)" by (rule sym, rule indexOf_nth [OF ia])
  also have "\<dots> = xs ! nat (indexOf xs b)" by (simp only: assms(2))
  also have "\<dots> = b" by (rule indexOf_nth [OF ib])
  finally show ?thesis .
qed

lemma filter_eq_replicate: "filter (\<lambda>x. x = k) xs = replicate (count (mset xs) k) k"
  by (induction xs) auto

lemma sort_key_known_labels:
  assumes m: "mset ys = mset xs" and k: "set xs \<subseteq> set hdrOrder"
  shows "sort_key (indexOf hdrOrder) ys = sort_key (indexOf hdrOrder) xs"
proof (rule sym, rule properties_for_sort_key)
  show "mset (sort_key (indexOf hdrOrder) ys) = mset xs" using m by simp
  show "sorted (map (indexOf hdrOrder) (sort_key (indexOf hdrOrder) ys))" by simp
next
  fix a assume "a \<in> set (sort_key (indexOf hdrOrder) ys)"
  then have a: "a \<in> set xs" using m by (metis mset_eq_setD set_sort)
  with k have ak: "a \<in> set hdrOrder" by blast
  have e: "(indexOf hdrOrder a = indexOf hdrOrder x) = (x = a)" for x
    using indexOf_inj [OF ak, of x] by auto
  have "filter (\<lambda>x. indexOf hdrOrder a = indexOf hdrOrder x) (sort_key (indexOf hdrOrder) ys)
        = filter (\<lambda>x. x = a) (sort_key (indexOf hdrOrder) ys)"
    by (simp add: e)
  also have "\<dots> = replicate (count (mset xs) a) a"
    using m by (simp add: filter_eq_replicate)
  also have "\<dots> = filter (\<lambda>x. x = a) xs" by (simp add: filter_eq_replicate)
  also have "\<dots> = filter (\<lambda>x. indexOf hdrOrder a = indexOf hdrOrder x) xs"
    by (simp add: e)
  finally show "filter (\<lambda>x. indexOf hdrOrder a = indexOf hdrOrder x) (sort_key (indexOf hdrOrder) ys)
        = filter (\<lambda>x. indexOf hdrOrder a = indexOf hdrOrder x) xs" .
qed

lemma getHdrParts_sort: "getHdrParts b = sort_key (indexOf hdrOrder) (map hdr_label (hdr b))"
  by (simp add: getHdrParts_def)

text \<open>
  Claim C4 (amended). The HDR tokens of the composed name are the HDR entries of the bag,
  each in upper case with \<open>DOLBY VISION\<close> replaced by \<open>DV\<close>, sorted stably by their index in
  the list HDR10+, HDR10, HDR, DV, HLG, SDR (the index of a label outside the list is
  \<open>-1\<close>): the tokens are a permutation of the entries, in the order of that index, and
  entries with the same index keep their relative order. When all labels are in the list,
  the tokens do not depend on the order of the entries. The entries are not deduplicated:
  an entry given twice gives its token twice. The entries \<open>DV\<close>, \<open>HDR10\<close> give the tokens
  \<open>HDR10\<close>, \<open>DV\<close>.
\<close>

theorem hdr_parts_sorted_permutation:
  "mset (getHdrParts b) = mset (map hdr_label (hdr b))
   \<and> sorted (map (indexOf hdrOrder) (getHdrParts b))
   \<and> (\<forall>k. filter (\<lambda>a. indexOf hdrOrder a = k) (getHdrParts b)
            = filter (\<lambda>a. indexOf hdrOrder a = k) (map hdr_label (hdr b)))
   \<and> (set (map hdr_label (hdr b)) \<subseteq> set hdrOrder
        \<and> mset (map hdr_label (hdr b')) = mset (map hdr_label (hdr b))
        \<longrightarrow> getHdrParts b' = getHdrParts b)
   \<and> getHdrParts (b\<lparr>hdr := [''DV'', ''HDR10'']\<rparr>) = [''HDR10'', ''DV'']"
proof -
  have "getHdrParts (b\<lparr>hdr := [''DV'', ''HDR10'']\<rparr>) = [''HDR10'', ''DV'']"
    by (simp add: getHdrParts_def hdr_label_def hdrOrder_def toUpperCase_def upper_char_def
        is_lower_def)
  moreover have "set (map hdr_label (hdr b)) \<subseteq> set hdrOrder
        \<and> mset (map hdr_label (hdr b')) = mset (map hdr_label (hdr b))
        \<longrightarrow> getHdrParts b' = getHdrParts b"
    using sort_key_known_labels [of "map hdr_label (hdr b')" "map hdr_label (hdr b)"]
    by (simp only: getHdrParts_sort) blast
  ultimately show ?thesis
    by (simp add: getHdrParts_sort sort_key_stable)
qed

lemma example_hdr_labels:
  "map hdr_label (hdr (empty_bag\<lparr>hdr := [''hlg'', ''Dolby Vision'', ''hlg'']\<rparr>)) = [''HLG'', ''DV'', ''HLG'']"
  "map hdr_label (hdr (empty_bag\<lparr>hdr := [''Dolby Vision'', ''hlg'', ''hlg'']\<rparr>)) = [''DV'', ''HLG'', ''HLG'']"
  by code_simp+

theorem hdr_parts_sorted_permutation_witness:
  "mset (getHdrParts (empty_bag\<lparr>hdr := [''hlg'', ''Dolby Vision'', ''hlg'']\<rparr>))
     = mset [''HLG'', ''DV'', ''HLG'']
   \<and> getHdrParts (empty_bag\<lparr>hdr := [''Dolby Vision'', ''hlg'', ''hlg'']\<rparr>)
       = getHdrParts (empty_bag\<lparr>hdr := [''hlg'', ''Dolby Vision'', ''hlg'']\<rparr>)
   \<and> getHdrParts ((empty_bag\<lparr>hdr := [''hlg'', ''Dolby Vision'', ''hlg'']\<rparr>)\<lparr>hdr := [''DV'', ''HDR10'']\<rparr>)
       = [''HDR10'', ''DV'']"
proof -
  have k: "set (map hdr_label (hdr (empty_bag\<lparr>hdr := [''hlg'', ''Dolby Vision'', ''hlg'']\<rparr>)))
             \<subseteq> set hdrOrder"
    by (simp only: example_hdr_labels) (simp add: hdrOrder_def)
  have m: "mset (map hdr_label (hdr (empty_bag\<lparr>hdr := [''Dolby Vision'', ''hlg'', ''hlg'']\<rparr>)))
             = mset (map hdr_label (hdr (empty_bag\<lparr>hdr := [''hlg'', ''Dolby Vision'', ''hlg'']\<rparr>)))"
    by (simp only: example_hdr_labels) simp
  from hdr_parts_sorted_permutation
         [of "empty_bag\<lparr>hdr := [''hlg'', ''Dolby Vision'', ''hlg'']\<rparr>"
             "empty_bag\<lparr>hdr := [''Dolby Vision'', ''hlg'', ''hlg'']\<rparr>"] k m
  show ?thesis
    by (simp only: example_hdr_labels)
qed

text \<open>
  Claim C5 (amended). In the HDR slot a label that is not in the list HDR10+, HDR10, HDR,
  DV, HLG, SDR sorts first: every label outside the list stands before every label of the
  list.
\<close>

theorem hdr_unknown_labels_first:
  assumes "i < length (getHdrParts b)" and "j < length (getHdrParts b)"
    and "getHdrParts b ! i \<in> set hdrOrder" and "getHdrParts b ! j \<notin> set hdrOrder"
  shows "j < i"
proof (rule ccontr)
  assume "\<not> j < i"
  then have "i \<le> j" by simp
  with getHdrParts_sorted [of b] assms(2)
  have "map (indexOf hdrOrder) (getHdrParts b) ! i \<le> map (indexOf hdrOrder) (getHdrParts b) ! j"
    by (simp add: sorted_iff_nth_mono del: nth_map)
  with assms(1,2)
  have "indexOf hdrOrder (getHdrParts b ! i) \<le> indexOf hdrOrder (getHdrParts b ! j)"
    by simp
  moreover from assms(3) have "0 \<le> indexOf hdrOrder (getHdrParts b ! i)"
    by (simp add: indexOf_nonneg_iff)
  moreover from assms(4) have "\<not> 0 \<le> indexOf hdrOrder (getHdrParts b ! j)"
    by (simp add: indexOf_nonneg_iff)
  ultimately show False by simp
qed

section \<open>Properties of the tag matcher\<close>



section \<open>Properties of the Serie state\<close>





section \<open>Properties of title normalization\<close>

subsection \<open>Characters\<close>



lemma plain_kept: "plain_char c \<Longrightarrow> kept_char c"
  by (simp add: plain_char_def)




lemma of_char_lower: "(of_char (lower_char c) :: nat) = (if is_upper c then of_char c + 32 else of_char c)"
  by (auto simp: lower_char_def is_upper_def Let_def)


lemma of_char_upper1: "(of_char (upper1 c) :: nat) = (if is_lower c then of_char c - 32 else of_char c)"
proof -
  have "(of_char c :: nat) < 256" by simp
  then show ?thesis
    by (auto simp: upper1_def is_lower_def Let_def)
qed







lemma lower_ascii: "(of_char c :: nat) < 128 \<Longrightarrow> (of_char (lower_char c) :: nat) < 128"
  by (auto simp: of_char_lower is_upper_def Let_def)

lemma upper1_ascii: "(of_char c :: nat) < 128 \<Longrightarrow> (of_char (upper1 c) :: nat) < 128"
  by (auto simp: of_char_upper1 is_lower_def Let_def)


subsection \<open>Strings\<close>





















subsection \<open>Words\<close>






subsection \<open>Codes of the special characters\<close>









subsection \<open>The two passes\<close>








section \<open>Properties of the composed name\<close>









section \<open>Properties of the genre tags\<close>




























section \<open>The scenario of the audio languages\<close>

text \<open>
  Claim C1 (the code departs from it). For a report whose two audio tracks carry the
  languages Francais (with cedilla) and English, \<open>parseMediaInfo\<close> records the audio
  languages Francais and Anglais and sets the advisory language to \<open>MULTi\<close>; on the
  resulting bag the language slot of both name composers is the single token \<open>VFF\<close>, not
  \<open>MULTI\<close>.
\<close>

theorem french_english_report_language_slot:
  "language (parseMediaInfo
       [[(''@type'', ''Audio''), (''Language'', ''Fran'' @ [CHR 0xE7] @ ''ais'')],
        [(''@type'', ''Audio''), (''Language'', ''English'')]]) = ''MULTi''
   \<and> audioLanguages (parseMediaInfo
       [[(''@type'', ''Audio''), (''Language'', ''Fran'' @ [CHR 0xE7] @ ''ais'')],
        [(''@type'', ''Audio''), (''Language'', ''English'')]])
       = [''Fran'' @ [CHR 0xE7] @ ''ais'', ''Anglais'']
   \<and> isVOSTFR (parseMediaInfo
       [[(''@type'', ''Audio''), (''Language'', ''Fran'' @ [CHR 0xE7] @ ''ais'')],
        [(''@type'', ''Audio''), (''Language'', ''English'')]]) = False
   \<and> generateLanguageParts (parseMediaInfo
       [[(''@type'', ''Audio''), (''Language'', ''Fran'' @ [CHR 0xE7] @ ''ais'')],
        [(''@type'', ''Audio''), (''Language'', ''English'')]]) = [''VFF'']
   \<and> getLanguageParts (parseMediaInfo
       [[(''@type'', ''Audio''), (''Language'', ''Fran'' @ [CHR 0xE7] @ ''ais'')],
        [(''@type'', ''Audio''), (''Language'', ''English'')]]) = [''VFF'']"
proof -
  have p: "parseMediaInfo
       [[(''@type'', ''Audio''), (''Language'', ''Fran'' @ [CHR 0xE7] @ ''ais'')],
        [(''@type'', ''Audio''), (''Language'', ''English'')]]
     = empty_bag\<lparr>audioLanguages := [''Fran'' @ [CHR 0xE7] @ ''ais'', ''Anglais''],
                 audioCodecs := [[]], language := ''MULTi''\<rparr>"
    by code_simp
  have g: "generateLanguageParts (empty_bag\<lparr>audioLanguages := [''Fran'' @ [CHR 0xE7] @ ''ais'', ''Anglais''],
                 audioCodecs := [[]], language := ''MULTi''\<rparr>) = [''VFF'']"
    by code_simp
  have m: "getLanguageParts (empty_bag\<lparr>audioLanguages := [''Fran'' @ [CHR 0xE7] @ ''ais'', ''Anglais''],
                 audioCodecs := [[]], language := ''MULTi''\<rparr>) = [''VFF'']"
    by code_simp
  show ?thesis
    unfolding p g m by (simp add: empty_bag_def)
qed

section \<open>The scenario of the parsed and composed name\<close>

text \<open>
  Claim C2 (the code departs from it). The name
  \<open>Example.Movie.2019.1080p.BluRay.x264-GROUP\<close> parses to the title \<open>Example Movie\<close>, the
  year 2019, no resolution, the source \<open>BluRay\<close> and the release group \<open>GROUP\<close>. With the
  resolution 1080p and the video codec \<open>x264\<close> supplied, the movie name composed from that
  bag is \<open>Example.Movie.2019.1080p.BluRay.X264-GROUP\<close>: the codec slot is upper-cased, so
  the composed name is not the name that was parsed.
\<close>

theorem example_name_parse_and_compose:
  "title (parseReleaseName ''Example.Movie.2019.1080p.BluRay.x264-GROUP'' None) = ''Example Movie''
   \<and> year (parseReleaseName ''Example.Movie.2019.1080p.BluRay.x264-GROUP'' None) = ''2019''
   \<and> resolution (parseReleaseName ''Example.Movie.2019.1080p.BluRay.x264-GROUP'' None) = []
   \<and> source (parseReleaseName ''Example.Movie.2019.1080p.BluRay.x264-GROUP'' None) = ''BluRay''
   \<and> releaseGroup (parseReleaseName ''Example.Movie.2019.1080p.BluRay.x264-GROUP'' None) = ''GROUP''
   \<and> generateMovieReleaseName
        ((parseReleaseName ''Example.Movie.2019.1080p.BluRay.x264-GROUP'' None)
           \<lparr>resolution := ''1080p'', codec := ''x264''\<rparr>)
       = ''Example.Movie.2019.1080p.BluRay.X264-GROUP''
   \<and> Film_generateName
        ((parseReleaseName ''Example.Movie.2019.1080p.BluRay.x264-GROUP'' None)
           \<lparr>resolution := ''1080p'', codec := ''x264''\<rparr>)
       = ''Example.Movie.2019.1080p.BluRay.X264-GROUP''
   \<and> getCodecPart
        ((parseReleaseName ''Example.Movie.2019.1080p.BluRay.x264-GROUP'' None)
           \<lparr>resolution := ''1080p'', codec := ''x264''\<rparr>) = ''X264''"
proof -
  have p: "parseReleaseName ''Example.Movie.2019.1080p.BluRay.x264-GROUP'' None
     = empty_bag\<lparr>title := ''Example Movie'', year := ''2019'', releaseGroup := ''GROUP'',
                 source := ''BluRay''\<rparr>"
    by code_simp
  have g: "generateMovieReleaseName
        (empty_bag\<lparr>title := ''Example Movie'', year := ''2019'', releaseGroup := ''GROUP'',
                 source := ''BluRay'', resolution := ''1080p'', codec := ''x264''\<rparr>)
       = ''Example.Movie.2019.1080p.BluRay.X264-GROUP''"
    by code_simp
  have f: "Film_generateName
        (empty_bag\<lparr>title := ''Example Movie'', year := ''2019'', releaseGroup := ''GROUP'',
                 source := ''BluRay'', resolution := ''1080p'', codec := ''x264''\<rparr>)
       = ''Example.Movie.2019.1080p.BluRay.X264-GROUP''"
    by code_simp
  have c: "getCodecPart
        (empty_bag\<lparr>title := ''Example Movie'', year := ''2019'', releaseGroup := ''GROUP'',
                 source := ''BluRay'', resolution := ''1080p'', codec := ''x264''\<rparr>) = ''X264''"
    by code_simp
  show ?thesis
    unfolding p g f c by (simp add: empty_bag_def)
qed

section \<open>Examples for the HDR slot\<close>

lemma hdr_known_unknown_parts:
  "getHdrParts (empty_bag\<lparr>hdr := [''HDR10'', ''FOO'']\<rparr>) = [''FOO'', ''HDR10'']"
  by code_simp

theorem hdr_duplicates_repeat:
  "getHdrParts (empty_bag\<lparr>hdr := [''HDR10'', ''HDR10'']\<rparr>) = [''HDR10'', ''HDR10'']
   \<and> generateMovieReleaseName (empty_bag\<lparr>title := ''Movie'', hdr := [''HDR10'', ''HDR10'']\<rparr>)
       = ''Movie.HDR10.HDR10-NoTag''"
  by code_simp

theorem hdr_unknown_labels_first_witness:
  "getHdrParts (empty_bag\<lparr>hdr := [''HDR10'', ''FOO'']\<rparr>) ! 1 \<in> set hdrOrder
   \<and> getHdrParts (empty_bag\<lparr>hdr := [''HDR10'', ''FOO'']\<rparr>) ! 0 \<notin> set hdrOrder
   \<and> (0::nat) < 1"
proof -
  have l: "(1::nat) < length (getHdrParts (empty_bag\<lparr>hdr := [''HDR10'', ''FOO'']\<rparr>))"
    and l0: "(0::nat) < length (getHdrParts (empty_bag\<lparr>hdr := [''HDR10'', ''FOO'']\<rparr>))"
    and k: "getHdrParts (empty_bag\<lparr>hdr := [''HDR10'', ''FOO'']\<rparr>) ! 1 \<in> set hdrOrder"
    and u: "getHdrParts (empty_bag\<lparr>hdr := [''HDR10'', ''FOO'']\<rparr>) ! 0 \<notin> set hdrOrder"
    by (simp_all add: hdr_known_unknown_parts hdrOrder_def)
  from hdr_unknown_labels_first [OF l l0 k u] k u show ?thesis by simp
qed

theorem hdr_unknown_label_sorts_first:
  "getHdrParts (empty_bag\<lparr>hdr := [''HDR10'', ''FOO'']\<rparr>) = [''FOO'', ''HDR10'']
   \<and> generateMovieReleaseName (empty_bag\<lparr>title := ''Movie'', hdr := [''HDR10'', ''FOO'']\<rparr>)
       = ''Movie.FOO.HDR10-NoTag''"
  by code_simp


section \<open>Examples for the composed name\<close>






section \<open>Examples for the genre tags\<close>








end
